theory Spec2Isabelle
  imports Complex_Main
begin

section \<open>Tensors and the torch operations the two modules use\<close>

text \<open>
  The repository has two modules: \<^verbatim>\<open>VTrace\<close> (src/VTrace.py), which computes the
  V-trace targets of a trajectory segment, and \<^verbatim>\<open>Impala\<close> (src/IMPALA.py), which
  assembles the loss from them.

  Numbers: torch computes in float32. The embedding computes in \<^typ>\<open>real\<close>, so every
  statement below is about the arithmetic the code spells out, free of rounding,
  overflow and NaN. Device placement (\<^verbatim>\<open>.cuda()\<close>, \<^verbatim>\<open>.cpu()\<close>, \<^verbatim>\<open>.to(...)\<close>) moves
  data and does not change a value: it is left out. \<^verbatim>\<open>detach\<close> only cuts the
  autograd graph and is the identity on values.

  A tensor of shape \<open>[n, B]\<close> is the list of its \<open>n\<close> rows (time major), each row a
  list of \<open>B\<close> reals. A tensor without rows carries no column count here.
\<close>

datatype error = AssertionError | TypeError | AttributeError | IndexError | RuntimeError

type_synonym row = "real list"
type_synonym tensor = "real list list"

definition ebind :: "error + 'a \<Rightarrow> ('a \<Rightarrow> error + 'b) \<Rightarrow> error + 'b" where
  "ebind m f = (case m of Inl e \<Rightarrow> Inl e | Inr x \<Rightarrow> f x)"

text \<open>\<open>shape2 n B t\<close>: the tensor \<open>t\<close> has shape \<open>[n, B]\<close>.\<close>

definition shape2 :: "nat \<Rightarrow> nat \<Rightarrow> tensor \<Rightarrow> bool" where
  "shape2 n B t = (length t = n \<and> list_all (\<lambda>r. length r = B) t)"

text \<open>
  An elementwise binary operation on two rows. torch broadcasts: equal lengths combine
  position by position, a row of length 1 is stretched to the other's length, and any
  other pair of lengths raises RuntimeError.
\<close>

definition broadcast :: "(real \<Rightarrow> real \<Rightarrow> real) \<Rightarrow> row \<Rightarrow> row \<Rightarrow> error + row" where
  "broadcast f xs ys =
     (if length xs = length ys then Inr (map2 f xs ys)
      else if length xs = 1 then Inr (map (f (hd xs)) ys)
      else if length ys = 1 then Inr (map (\<lambda>x. f x (hd ys)) xs)
      else Inl RuntimeError)"

fun rows_zip :: "(real \<Rightarrow> real \<Rightarrow> real) \<Rightarrow> tensor \<Rightarrow> tensor \<Rightarrow> error + tensor" where
  "rows_zip f (x # xs) (y # ys) =
     ebind (broadcast f x y) (\<lambda>r. ebind (rows_zip f xs ys) (\<lambda>rs. Inr (r # rs)))"
| "rows_zip f _ _ = Inr []"

text \<open>The same operation on two tensors: the time axis broadcasts like the batch axis.\<close>

definition broadcast2 :: "(real \<Rightarrow> real \<Rightarrow> real) \<Rightarrow> tensor \<Rightarrow> tensor \<Rightarrow> error + tensor" where
  "broadcast2 f xs ys =
     (if length xs = length ys then rows_zip f xs ys
      else if length xs = 1 then rows_zip f (replicate (length ys) (hd xs)) ys
      else if length ys = 1 then rows_zip f xs (replicate (length xs) (hd ys))
      else Inl RuntimeError)"

text \<open>A 0-dimensional tensor (a scalar) combines with every shape.\<close>

definition scal_row :: "(real \<Rightarrow> real \<Rightarrow> real) \<Rightarrow> real \<Rightarrow> row \<Rightarrow> row" where
  "scal_row f c xs = map (f c) xs"

definition scal_tensor :: "(real \<Rightarrow> real \<Rightarrow> real) \<Rightarrow> real \<Rightarrow> tensor \<Rightarrow> tensor" where
  "scal_tensor f c t = map (scal_row f c) t"

definition t_exp :: "tensor \<Rightarrow> tensor" where
  "t_exp t = map (map exp) t"

definition t_neg :: "tensor \<Rightarrow> tensor" where
  "t_neg t = map (map uminus) t"

definition t_pow2 :: "tensor \<Rightarrow> tensor" where
  "t_pow2 t = map (map (\<lambda>x. x ^ 2)) t"

definition t_sum :: "tensor \<Rightarrow> real" where
  "t_sum t = sum_list (map sum_list t)"

definition zeros :: "tensor \<Rightarrow> tensor" where
  "zeros t = map (map (\<lambda>_. 0)) t"

text \<open>\<^verbatim>\<open>t[i]\<close> with \<open>i \<ge> 0\<close>, and \<^verbatim>\<open>t[-1]\<close>: out of range raises IndexError.\<close>

definition index :: "tensor \<Rightarrow> nat \<Rightarrow> error + row" where
  "index t i = (if i < length t then Inr (t ! i) else Inl IndexError)"

definition index_last :: "tensor \<Rightarrow> error + row" where
  "index_last t = (if t = [] then Inl IndexError else Inr (last t))"

text \<open>
  \<^verbatim>\<open>t[i] = r\<close> copies \<open>r\<close> into row \<open>i\<close>: \<open>r\<close> must have the row's length or length 1
  (then it is stretched).
\<close>

definition set_row :: "tensor \<Rightarrow> nat \<Rightarrow> row \<Rightarrow> error + tensor" where
  "set_row t i r =
     (if i < length t then
        (if length r = length (t ! i) then Inr (t[i := r])
         else if length r = 1 then Inr (t[i := replicate (length (t ! i)) (hd r)])
         else Inl RuntimeError)
      else Inl IndexError)"

definition set_row_last :: "tensor \<Rightarrow> row \<Rightarrow> error + tensor" where
  "set_row_last t r = (if t = [] then Inl IndexError else set_row t (length t - 1) r)"

section \<open>VTrace (src/VTrace.py)\<close>

record VTrace =
  rho :: real
  cis :: real
  discount_factor :: real

text \<open>\<^verbatim>\<open>VTrace.__init__(self, discount_factor, rho, cis)\<close>: one assertion, three fields.\<close>

definition VTrace_init :: "real \<Rightarrow> real \<Rightarrow> real \<Rightarrow> error + VTrace" where
  "VTrace_init discount_factor' rho' cis' =
     (if \<not> rho' \<ge> cis' then Inl AssertionError
      else Inr \<lparr>rho = rho', cis = cis', discount_factor = discount_factor'\<rparr>)"

text \<open>Lines 65-67 of \<^verbatim>\<open>forward\<close>: the importance ratios and their two truncations.\<close>

definition importance_sampling :: "tensor \<Rightarrow> tensor \<Rightarrow> error + tensor" where
  "importance_sampling target_log_policy behaviour_log_policy =
     ebind (broadcast2 (-) target_log_policy behaviour_log_policy) (\<lambda>d. Inr (t_exp d))"

definition rhos_of :: "VTrace \<Rightarrow> tensor \<Rightarrow> tensor" where
  "rhos_of self w = scal_tensor min (rho self) w"

definition ciss_of :: "VTrace \<Rightarrow> tensor \<Rightarrow> tensor" where
  "ciss_of self w = scal_tensor min (cis self) w"

text \<open>
  The body of the loop at lines 74-75, for one index \<open>i\<close>, on the buffer \<open>vtrace\<close>;
  operands are read left to right, as Python evaluates them.
\<close>

definition vtrace_step ::
  "VTrace \<Rightarrow> tensor \<Rightarrow> tensor \<Rightarrow> tensor \<Rightarrow> tensor \<Rightarrow> nat \<Rightarrow> tensor \<Rightarrow> error + tensor" where
  "vtrace_step self target_value rewards rhos ciss i vtrace =
     ebind (index rhos i) (\<lambda>rhos_i.
     ebind (index rewards i) (\<lambda>rewards_i.
     ebind (index target_value (i + 1)) (\<lambda>tv_next.
     ebind (broadcast (+) rewards_i (scal_row (*) (discount_factor self) tv_next)) (\<lambda>s.
     ebind (index target_value i) (\<lambda>tv_i.
     ebind (broadcast (-) s tv_i) (\<lambda>td.
     ebind (broadcast (*) rhos_i td) (\<lambda>delta.
     ebind (index target_value i) (\<lambda>tv_i'.
     ebind (broadcast (+) tv_i' delta) (\<lambda>a.
     ebind (index ciss i) (\<lambda>ciss_i.
     ebind (index vtrace (i + 1)) (\<lambda>v_next.
     ebind (index target_value (i + 1)) (\<lambda>tv_next'.
     ebind (broadcast (-) v_next tv_next') (\<lambda>corr.
     ebind (broadcast (*) (scal_row (*) (discount_factor self) ciss_i) corr) (\<lambda>b.
     ebind (broadcast (+) a b) (\<lambda>r.
     set_row vtrace i r)))))))))))))))"

text \<open>\<^verbatim>\<open>for i in reversed(range(size[0]-1))\<close>, given the list of indices still to visit.\<close>

fun vtrace_loop ::
  "VTrace \<Rightarrow> tensor \<Rightarrow> tensor \<Rightarrow> tensor \<Rightarrow> tensor \<Rightarrow> nat list \<Rightarrow> tensor \<Rightarrow> error + tensor" where
  "vtrace_loop self target_value rewards rhos ciss [] vtrace = Inr vtrace"
| "vtrace_loop self target_value rewards rhos ciss (i # is) vtrace =
     ebind (vtrace_step self target_value rewards rhos ciss i vtrace)
       (vtrace_loop self target_value rewards rhos ciss is)"

text \<open>
  \<^verbatim>\<open>VTrace.forward\<close>. \<^verbatim>\<open>range(size[0]-1)\<close> is empty for \<open>size[0] \<le> 1\<close>; the
  subtraction on \<^typ>\<open>nat\<close> gives the same empty range (and \<open>size[0] = 0\<close> has already
  failed at \<^verbatim>\<open>target_value[-1]\<close>).
\<close>

definition forward ::
  "VTrace \<Rightarrow> tensor \<Rightarrow> tensor \<Rightarrow> tensor \<Rightarrow> tensor \<Rightarrow> error + (tensor \<times> tensor)" where
  "forward self target_value rewards target_log_policy behaviour_log_policy =
     (let size0 = length target_value;
          vtrace = zeros target_value
      in ebind (importance_sampling target_log_policy behaviour_log_policy) (\<lambda>w.
         let rhos = rhos_of self w;
             ciss = ciss_of self w
         in ebind (index_last target_value) (\<lambda>tv_last.
            ebind (set_row_last vtrace tv_last) (\<lambda>vtrace.
            ebind (vtrace_loop self target_value rewards rhos ciss (rev [0..<size0 - 1]) vtrace)
              (\<lambda>vtrace. Inr (vtrace, rhos))))))"

text \<open>
  A segment is valid when \<open>target_value\<close> has shape \<open>[T+1, B]\<close> and the other three
  inputs of \<^verbatim>\<open>forward\<close> have shape \<open>[T, B]\<close>.
\<close>

definition valid_segment :: "nat \<Rightarrow> nat \<Rightarrow> tensor \<Rightarrow> tensor \<Rightarrow> tensor \<Rightarrow> tensor \<Rightarrow> bool" where
  "valid_segment T B target_value rewards target_log_policy behaviour_log_policy =
     (shape2 (T + 1) B target_value \<and> shape2 T B rewards \<and>
      shape2 T B target_log_policy \<and> shape2 T B behaviour_log_policy)"

subsection \<open>Calling the constructor with keyword arguments\<close>

text \<open>
  Python binds the keyword arguments of a call to the parameters of the callee before
  its body runs: a keyword that names no parameter raises TypeError, and so does a
  parameter without default that no argument supplies. \<^verbatim>\<open>VTrace.__init__\<close> has the
  parameters \<^verbatim>\<open>discount_factor, rho, cis\<close> (after \<^verbatim>\<open>self\<close>), none with a default.
\<close>

datatype pyval = PyFloat real | PyInt int

fun num :: "pyval \<Rightarrow> real" where
  "num (PyFloat r) = r"
| "num (PyInt i) = of_int i"

definition bind_kwargs :: "string list \<Rightarrow> (string \<times> pyval) list \<Rightarrow> error + (string \<rightharpoonup> pyval)" where
  "bind_kwargs params kwargs =
     (if list_ex (\<lambda>k. k \<notin> set params) (map fst kwargs) then Inl TypeError
      else if list_ex (\<lambda>p. p \<notin> set (map fst kwargs)) params then Inl TypeError
      else Inr (map_of kwargs))"

definition VTrace_params :: "string list" where
  "VTrace_params = [''discount_factor'', ''rho'', ''cis'']"

definition VTrace_call :: "(string \<times> pyval) list \<Rightarrow> error + VTrace" where
  "VTrace_call kwargs =
     ebind (bind_kwargs VTrace_params kwargs) (\<lambda>a.
       VTrace_init (num (the (a ''discount_factor''))) (num (the (a ''rho'')))
         (num (the (a ''cis''))))"

section \<open>Impala (src/IMPALA.py)\<close>

text \<open>
  The model is an external collaborator: a function from the four inputs of its forward
  pass to \<^verbatim>\<open>(target_log_probs, target_entropy, target_value)\<close>, or a failure.
  Observations are a list over time of opaque payloads; \<^verbatim>\<open>obs.size()[0]\<close> is its
  length.

  \<^verbatim>\<open>VTrace\<close>, which IMPALA.py imports, is the class of src/VTrace.py above.

  The record has the attributes that \<^verbatim>\<open>Impala.__init__\<close> assigns: \<^verbatim>\<open>device\<close>,
  \<^verbatim>\<open>model\<close>, \<^verbatim>\<open>entropy_coef\<close>, \<^verbatim>\<open>value_coef\<close>, \<^verbatim>\<open>sequence_length\<close> and
  \<^verbatim>\<open>vtrace\<close>. The class body annotates \<^verbatim>\<open>discount_factor : Final[float]\<close> without a
  value, which creates no attribute, and no statement assigns
  \<^verbatim>\<open>self.discount_factor\<close>.
\<close>

type_synonym ('o, 'h, 'm, 'a) model =
  "'o list \<Rightarrow> 'h \<Rightarrow> 'm \<Rightarrow> 'a \<Rightarrow> error + (tensor \<times> tensor \<times> tensor)"

record ('o, 'h, 'm, 'a) Impala =
  device :: string
  model :: "('o, 'h, 'm, 'a) model"
  entropy_coef :: real
  value_coef :: real
  sequence_length :: int
  vtrace :: VTrace

text \<open>
  \<^verbatim>\<open>Impala.__init__\<close>: the attribute assignments, and the construction
  \<^verbatim>\<open>VTrace(discount_factor=..., rho=..., cis=..., sequence_length=...)\<close>.
\<close>

definition Impala_init ::
  "int \<Rightarrow> real \<Rightarrow> real \<Rightarrow> real \<Rightarrow> ('o, 'h, 'm, 'a) model \<Rightarrow> real \<Rightarrow> real \<Rightarrow> string
     \<Rightarrow> error + ('o, 'h, 'm, 'a) Impala" where
  "Impala_init sequence_length' entropy_coef' value_coef' discount_factor' model' rho' cis' device' =
     ebind (VTrace_call [(''discount_factor'', PyFloat discount_factor'),
                         (''rho'', PyFloat rho'),
                         (''cis'', PyFloat cis'),
                         (''sequence_length'', PyInt sequence_length')])
       (\<lambda>vt. Inr \<lparr>device = device', model = model', entropy_coef = entropy_coef',
                  value_coef = value_coef', sequence_length = sequence_length',
                  vtrace = vt\<rparr>)"

text \<open>
  Reading \<^verbatim>\<open>self.discount_factor\<close> (line 108): the instance has no such attribute, and
  \<^verbatim>\<open>nn.Module.__getattr__\<close> raises AttributeError.
\<close>

definition self_discount_factor :: "('o, 'h, 'm, 'a) Impala \<Rightarrow> error + real" where
  "self_discount_factor self = Inl AttributeError"

text \<open>Lines 100-101: \<^verbatim>\<open>(v_targets - target_value).pow_(2).sum()\<close>.\<close>

definition loss_value_of :: "tensor \<Rightarrow> tensor \<Rightarrow> error + real" where
  "loss_value_of v_targets target_value =
     ebind (broadcast2 (-) v_targets target_value) (\<lambda>d. Inr (t_sum (t_pow2 d)))"

text \<open>Line 108, given the discount factor it reads.\<close>

definition advantage_of :: "real \<Rightarrow> tensor \<Rightarrow> tensor \<Rightarrow> tensor \<Rightarrow> error + tensor" where
  "advantage_of gamma rewards v_targets target_value =
     ebind (broadcast2 (+) rewards (scal_tensor (*) gamma (tl v_targets))) (\<lambda>s.
       broadcast2 (-) s (butlast target_value))"

text \<open>Lines 109-110: \<^verbatim>\<open>(- rhos * target_log_probs[:-1] * advantage.detach()).sum()\<close>.\<close>

definition loss_policy_of :: "tensor \<Rightarrow> tensor \<Rightarrow> tensor \<Rightarrow> error + real" where
  "loss_policy_of rhos target_log_probs advantage =
     ebind (broadcast2 (*) (t_neg rhos) (butlast target_log_probs)) (\<lambda>p.
     ebind (broadcast2 (*) p advantage) (\<lambda>q. Inr (t_sum q)))"

text \<open>
  \<^verbatim>\<open>Impala.loss\<close>. The result is the loss and the three entries of
  \<^verbatim>\<open>detached_losses\<close> (policy, value, entropy).
\<close>

definition loss ::
  "('o, 'h, 'm, 'a) Impala \<Rightarrow> 'o list \<Rightarrow> 'a \<Rightarrow> 'm \<Rightarrow> 'h \<Rightarrow> tensor \<Rightarrow> tensor
     \<Rightarrow> error + (real \<times> real \<times> real \<times> real)" where
  "loss self obs behaviour_actions reset_mask lstm_hxs rewards behaviour_log_probs =
     (if int (length obs) \<noteq> sequence_length self + 1 then Inl AssertionError
      else
        ebind (model self obs lstm_hxs reset_mask behaviour_actions)
          (\<lambda>(target_log_probs, target_entropy, target_value).
        ebind (forward (vtrace self) target_value rewards (butlast target_log_probs)
                 behaviour_log_probs)
          (\<lambda>(v_targets, rhos).
        ebind (loss_value_of v_targets target_value) (\<lambda>loss_value.
        ebind (self_discount_factor self) (\<lambda>gamma.
        ebind (advantage_of gamma rewards v_targets target_value) (\<lambda>advantage.
        ebind (loss_policy_of rhos target_log_probs advantage) (\<lambda>loss_policy.
          let entropy = t_sum (butlast target_entropy);
              loss = loss_policy + value_coef self * loss_value - entropy_coef self * entropy
          in Inr (loss, loss_policy, loss_value, entropy))))))))"

section \<open>Facts about the tensor operations\<close>

lemma ebind_Inr [simp]: "ebind (Inr x) f = f x"
  by (simp add: ebind_def)

lemma ebind_Inl [simp]: "ebind (Inl e) f = Inl e"
  by (simp add: ebind_def)

lemma shape2_length: "shape2 n B t \<Longrightarrow> length t = n"
  by (simp add: shape2_def)

lemma shape2_row: "shape2 n B t \<Longrightarrow> i < n \<Longrightarrow> length (t ! i) = B"
  by (simp add: shape2_def list_all_length)

lemma shape2_update: "shape2 n B t \<Longrightarrow> length r = B \<Longrightarrow> shape2 n B (t[i := r])"
  by (cases "i < length t") (auto simp: shape2_def list_all_length nth_list_update)

lemma shape2_Cons: "shape2 (Suc n) B (x # xs) \<longleftrightarrow> length x = B \<and> shape2 n B xs"
  by (auto simp: shape2_def)

lemma shape2_map: "(\<And>r. length (g r) = length r) \<Longrightarrow> shape2 n B t \<Longrightarrow> shape2 n B (map g t)"
  by (auto simp: shape2_def list_all_length)

lemma broadcast_same: "length xs = length ys \<Longrightarrow> broadcast f xs ys = Inr (map2 f xs ys)"
  by (simp add: broadcast_def)

lemma rows_zip_same:
  "shape2 n B xs \<Longrightarrow> shape2 n B ys \<Longrightarrow> rows_zip f xs ys = Inr (map2 (map2 f) xs ys)"
proof (induction xs arbitrary: ys n)
  case Nil
  then show ?case by (cases ys) simp_all
next
  case (Cons x xs)
  from Cons.prems obtain m where n: "n = Suc m" by (cases n) (auto simp: shape2_def)
  from Cons.prems n obtain y ys' where ys: "ys = y # ys'" by (cases ys) (auto simp: shape2_def)
  from Cons.prems n ys have "length x = B" "length y = B" "shape2 m B xs" "shape2 m B ys'"
    by (simp_all add: shape2_Cons)
  then show ?case using Cons.IH [of m ys'] ys by (simp add: broadcast_same)
qed

lemma broadcast2_same:
  "shape2 n B xs \<Longrightarrow> shape2 n B ys \<Longrightarrow> broadcast2 f xs ys = Inr (map2 (map2 f) xs ys)"
  by (simp add: broadcast2_def shape2_length rows_zip_same)

lemma map2_shape: "shape2 n B xs \<Longrightarrow> shape2 n B ys \<Longrightarrow> shape2 n B (map2 (map2 f) xs ys)"
  by (auto simp: shape2_def list_all_length)

lemma map2_nth2:
  "shape2 n B xs \<Longrightarrow> shape2 n B ys \<Longrightarrow> i < n \<Longrightarrow> b < B \<Longrightarrow>
   map2 (map2 f) xs ys ! i ! b = f (xs ! i ! b) (ys ! i ! b)"
  by (simp add: shape2_def list_all_length)

lemma importance_sampling_valid:
  "shape2 n B tlp \<Longrightarrow> shape2 n B blp \<Longrightarrow>
   importance_sampling tlp blp = Inr (t_exp (map2 (map2 (-)) tlp blp))"
  by (simp add: importance_sampling_def broadcast2_same)

lemma t_exp_shape: "shape2 n B t \<Longrightarrow> shape2 n B (t_exp t)"
  by (simp add: t_exp_def shape2_map)

lemma scal_tensor_shape: "shape2 n B t \<Longrightarrow> shape2 n B (scal_tensor f c t)"
  by (simp add: scal_tensor_def scal_row_def shape2_map)

lemma scal_tensor_nth: "shape2 n B t \<Longrightarrow> i < n \<Longrightarrow> b < B \<Longrightarrow> scal_tensor f c t ! i ! b = f c (t ! i ! b)"
  by (simp add: scal_tensor_def scal_row_def shape2_def list_all_length)

lemma t_exp_nth: "shape2 n B t \<Longrightarrow> i < n \<Longrightarrow> b < B \<Longrightarrow> t_exp t ! i ! b = exp (t ! i ! b)"
  by (simp add: t_exp_def shape2_def list_all_length)

lemma zeros_shape: "shape2 n B t \<Longrightarrow> shape2 n B (zeros t)"
  by (simp add: zeros_def shape2_map)

text \<open>one step\<close>

lemma vtrace_step_valid:
  assumes tv: "shape2 (Suc T) B tv" and rew: "shape2 n B rew" and n: "T \<le> n"
    and rhos: "shape2 T B rhos" and ciss: "shape2 T B ciss"
    and v: "shape2 (Suc T) B v" and i: "i < T"
  shows "\<exists>r. vtrace_step self tv rew rhos ciss i v = Inr (v[i := r]) \<and> length r = B \<and>
     (\<forall>b<B. r ! b = tv ! i ! b
        + rhos ! i ! b * (rew ! i ! b + discount_factor self * tv ! (i + 1) ! b - tv ! i ! b)
        + discount_factor self * ciss ! i ! b * (v ! (i + 1) ! b - tv ! (i + 1) ! b))"
proof -
  have len: "length tv = Suc T" "length rew = n" "length rhos = T" "length ciss = T" "length v = Suc T"
    using assms by (simp_all add: shape2_length)
  have rows: "length (tv ! i) = B" "length (tv ! Suc i) = B" "length (rew ! i) = B"
    "length (rhos ! i) = B" "length (ciss ! i) = B" "length (v ! i) = B" "length (v ! Suc i) = B"
    using assms by (simp_all add: shape2_row)
  have step: "vtrace_step self tv rew rhos ciss i v = Inr (v[i := map2 (+)
                 (map2 (+) (tv ! i)
                   (map2 (*) (rhos ! i)
                     (map2 (-)
                       (map2 (+) (rew ! i)
                         (map ((*) (discount_factor self)) (tv ! Suc i)))
                       (tv ! i))))
                 (map2 (*) (map ((*) (discount_factor self)) (ciss ! i))
                   (map2 (-) (v ! Suc i) (tv ! Suc i)))])"
    using i n by (simp add: vtrace_step_def index_def len rows broadcast_same scal_row_def set_row_def)
  show ?thesis
    unfolding step by (rule exI, rule conjI, rule refl) (simp add: rows)
qed


lemma vtrace_loop_valid:
  assumes tv: "shape2 (Suc T) B tv" and rew: "shape2 n B rew" and n: "T \<le> n"
    and rhos: "shape2 T B rhos" and ciss: "shape2 T B ciss"
  shows "k \<le> T \<Longrightarrow> shape2 (Suc T) B v \<Longrightarrow>
     \<exists>v'. vtrace_loop self tv rew rhos ciss (rev [0..<k]) v = Inr v' \<and> shape2 (Suc T) B v' \<and>
       (\<forall>j. k \<le> j \<longrightarrow> v' ! j = v ! j) \<and>
       (\<forall>i<k. \<forall>b<B. v' ! i ! b = tv ! i ! b
          + rhos ! i ! b * (rew ! i ! b + discount_factor self * tv ! (i + 1) ! b - tv ! i ! b)
          + discount_factor self * ciss ! i ! b * (v' ! (i + 1) ! b - tv ! (i + 1) ! b))"
proof (induction k arbitrary: v)
  case 0
  then show ?case by simp
next
  case (Suc k)
  from Suc.prems have k: "k < T" by simp
  from vtrace_step_valid [OF tv rew n rhos ciss Suc.prems(2) k, of self]
  obtain r where step: "vtrace_step self tv rew rhos ciss k v = Inr (v[k := r])"
    and lr: "length r = B"
    and r: "\<forall>b<B. r ! b = tv ! k ! b
        + rhos ! k ! b * (rew ! k ! b + discount_factor self * tv ! (k + 1) ! b - tv ! k ! b)
        + discount_factor self * ciss ! k ! b * (v ! (k + 1) ! b - tv ! (k + 1) ! b)"
    by blast
  have sh1: "shape2 (Suc T) B (v[k := r])"
    using Suc.prems(2) lr by (rule shape2_update)
  from k have kT: "k \<le> T" by simp
  from Suc.IH [OF kT sh1]
  obtain v' where loop: "vtrace_loop self tv rew rhos ciss (rev [0..<k]) (v[k := r]) = Inr v'"
    and sh': "shape2 (Suc T) B v'"
    and keep: "\<forall>j. k \<le> j \<longrightarrow> v' ! j = v[k := r] ! j"
    and rec: "\<forall>i<k. \<forall>b<B. v' ! i ! b = tv ! i ! b
          + rhos ! i ! b * (rew ! i ! b + discount_factor self * tv ! (i + 1) ! b - tv ! i ! b)
          + discount_factor self * ciss ! i ! b * (v' ! (i + 1) ! b - tv ! (i + 1) ! b)"
    by blast
  have lv: "length v = Suc T" using Suc.prems(2) by (rule shape2_length)
  have vk: "v' ! k = r" using keep k lv by simp
  have vk1: "v' ! (k + 1) = v ! (k + 1)" using keep by simp
  have run: "vtrace_loop self tv rew rhos ciss (rev [0..<Suc k]) v = Inr v'"
    using step loop by simp
  have keep': "\<forall>j. Suc k \<le> j \<longrightarrow> v' ! j = v ! j"
    using keep by simp
  have rec': "\<forall>i<Suc k. \<forall>b<B. v' ! i ! b = tv ! i ! b
          + rhos ! i ! b * (rew ! i ! b + discount_factor self * tv ! (i + 1) ! b - tv ! i ! b)
          + discount_factor self * ciss ! i ! b * (v' ! (i + 1) ! b - tv ! (i + 1) ! b)"
  proof (intro allI impI)
    fix i b assume i: "i < Suc k" and b: "b < B"
    show "v' ! i ! b = tv ! i ! b
          + rhos ! i ! b * (rew ! i ! b + discount_factor self * tv ! (i + 1) ! b - tv ! i ! b)
          + discount_factor self * ciss ! i ! b * (v' ! (i + 1) ! b - tv ! (i + 1) ! b)"
    proof (cases "i = k")
      case True
      then show ?thesis using r b vk vk1 by simp
    next
      case False
      with i have "i < k" by simp
      then show ?thesis using rec b by blast
    qed
  qed
  from run sh' keep' rec' show ?case by blast
qed

text \<open>The whole of forward on a valid segment.\<close>

lemma forward_rows:
  assumes tv: "shape2 (Suc T) B tv" and rew: "shape2 n B rew" and n: "T \<le> n"
    and tlp: "shape2 T B tlp" and blp: "shape2 T B blp"
  shows "\<exists>v. forward self tv rew tlp blp
           = Inr (v, rhos_of self (t_exp (map2 (map2 (-)) tlp blp))) \<and>
         shape2 (Suc T) B v \<and> v ! T = tv ! T \<and>
         (\<forall>i<T. \<forall>b<B. v ! i ! b = tv ! i ! b
            + rhos_of self (t_exp (map2 (map2 (-)) tlp blp)) ! i ! b
                * (rew ! i ! b + discount_factor self * tv ! (i + 1) ! b - tv ! i ! b)
            + discount_factor self * ciss_of self (t_exp (map2 (map2 (-)) tlp blp)) ! i ! b
                * (v ! (i + 1) ! b - tv ! (i + 1) ! b))"
proof -
  let ?w = "t_exp (map2 (map2 (-)) tlp blp)"
  have w: "importance_sampling tlp blp = Inr ?w"
    using tlp blp by (rule importance_sampling_valid)
  have shw: "shape2 T B ?w"
    using tlp blp by (simp add: t_exp_shape map2_shape)
  have rhos: "shape2 T B (rhos_of self ?w)" and ciss: "shape2 T B (ciss_of self ?w)"
    using shw by (simp_all add: rhos_of_def ciss_of_def scal_tensor_shape)
  have ltv: "length tv = Suc T" using tv by (rule shape2_length)
  then have ne: "tv \<noteq> []" by auto
  have lastv: "last tv = tv ! T" using ne ltv by (simp add: last_conv_nth)
  let ?v0 = "(zeros tv)[T := tv ! T]"
  have z: "shape2 (Suc T) B (zeros tv)" using tv by (rule zeros_shape)
  have lrow: "length (tv ! T) = B" using tv by (simp add: shape2_row)
  have zrow: "length (zeros tv ! T) = B" using z by (simp add: shape2_row)
  have lz: "length (zeros tv) = Suc T" using z by (rule shape2_length)
  have init: "set_row_last (zeros tv) (last tv) = Inr ?v0"
    using lz lrow zrow lastv by (auto simp: set_row_last_def set_row_def)
  have sh0: "shape2 (Suc T) B ?v0" using z lrow by (rule shape2_update)
  from vtrace_loop_valid [OF tv rew n rhos ciss le_refl sh0, of self]
  obtain v where loop: "vtrace_loop self tv rew (rhos_of self ?w) (ciss_of self ?w) (rev [0..<T]) ?v0 = Inr v"
    and shv: "shape2 (Suc T) B v"
    and keep: "\<forall>j. T \<le> j \<longrightarrow> v ! j = ?v0 ! j"
    and rec: "\<forall>i<T. \<forall>b<B. v ! i ! b = tv ! i ! b
            + rhos_of self ?w ! i ! b
                * (rew ! i ! b + discount_factor self * tv ! (i + 1) ! b - tv ! i ! b)
            + discount_factor self * ciss_of self ?w ! i ! b
                * (v ! (i + 1) ! b - tv ! (i + 1) ! b)"
    by blast
  have vT: "v ! T = tv ! T" using keep lz by simp
  have fw: "forward self tv rew tlp blp = Inr (v, rhos_of self ?w)"
    using w ne init loop ltv by (simp add: forward_def index_last_def)
  from fw shv vT rec show ?thesis by blast
qed


lemma weights_nth:
  assumes tlp: "shape2 T B tlp" and blp: "shape2 T B blp" and i: "i < T" and b: "b < B"
  shows "t_exp (map2 (map2 (-)) tlp blp) ! i ! b = exp (tlp ! i ! b - blp ! i ! b)"
    and "rhos_of self (t_exp (map2 (map2 (-)) tlp blp)) ! i ! b
           = min (rho self) (exp (tlp ! i ! b - blp ! i ! b))"
    and "ciss_of self (t_exp (map2 (map2 (-)) tlp blp)) ! i ! b
           = min (cis self) (exp (tlp ! i ! b - blp ! i ! b))"
proof -
  have sh: "shape2 T B (map2 (map2 (-)) tlp blp)" using tlp blp by (rule map2_shape)
  show w: "t_exp (map2 (map2 (-)) tlp blp) ! i ! b = exp (tlp ! i ! b - blp ! i ! b)"
    using sh tlp blp i b by (simp add: t_exp_nth map2_nth2)
  have shw: "shape2 T B (t_exp (map2 (map2 (-)) tlp blp))" using sh by (rule t_exp_shape)
  show "rhos_of self (t_exp (map2 (map2 (-)) tlp blp)) ! i ! b
           = min (rho self) (exp (tlp ! i ! b - blp ! i ! b))"
    using shw i b w by (simp add: rhos_of_def scal_tensor_nth)
  show "ciss_of self (t_exp (map2 (map2 (-)) tlp blp)) ! i ! b
           = min (cis self) (exp (tlp ! i ! b - blp ! i ! b))"
    using shw i b w by (simp add: ciss_of_def scal_tensor_nth)
qed

lemma forward_valid:
  assumes "valid_segment T B tv rew tlp blp"
  shows "\<exists>v. forward self tv rew tlp blp
           = Inr (v, rhos_of self (t_exp (map2 (map2 (-)) tlp blp))) \<and>
         shape2 (Suc T) B v \<and> v ! T = tv ! T \<and>
         (\<forall>i<T. \<forall>b<B. v ! i ! b = tv ! i ! b
            + min (rho self) (exp (tlp ! i ! b - blp ! i ! b))
                * (rew ! i ! b + discount_factor self * tv ! (i + 1) ! b - tv ! i ! b)
            + discount_factor self * min (cis self) (exp (tlp ! i ! b - blp ! i ! b))
                * (v ! (i + 1) ! b - tv ! (i + 1) ! b))"
proof -
  from assms have tv: "shape2 (Suc T) B tv" and rew: "shape2 T B rew"
    and tlp: "shape2 T B tlp" and blp: "shape2 T B blp"
    by (simp_all add: valid_segment_def)
  from forward_rows [OF tv rew le_refl tlp blp, of self]
  obtain v where fw: "forward self tv rew tlp blp
           = Inr (v, rhos_of self (t_exp (map2 (map2 (-)) tlp blp)))"
    and sh: "shape2 (Suc T) B v" and vT: "v ! T = tv ! T"
    and rec: "\<forall>i<T. \<forall>b<B. v ! i ! b = tv ! i ! b
            + rhos_of self (t_exp (map2 (map2 (-)) tlp blp)) ! i ! b
                * (rew ! i ! b + discount_factor self * tv ! (i + 1) ! b - tv ! i ! b)
            + discount_factor self * ciss_of self (t_exp (map2 (map2 (-)) tlp blp)) ! i ! b
                * (v ! (i + 1) ! b - tv ! (i + 1) ! b)"
    by blast
  have "\<forall>i<T. \<forall>b<B. v ! i ! b = tv ! i ! b
            + min (rho self) (exp (tlp ! i ! b - blp ! i ! b))
                * (rew ! i ! b + discount_factor self * tv ! (i + 1) ! b - tv ! i ! b)
            + discount_factor self * min (cis self) (exp (tlp ! i ! b - blp ! i ! b))
                * (v ! (i + 1) ! b - tv ! (i + 1) ! b)"
    using rec by (simp add: weights_nth [OF tlp blp])
  with fw sh vT show ?thesis by blast
qed


lemmas run_defs = forward_def importance_sampling_def broadcast2_def broadcast_def
  t_exp_def rhos_of_def ciss_of_def scal_tensor_def scal_row_def zeros_def index_def
  index_last_def set_row_def set_row_last_def vtrace_step_def Let_def

section \<open>The V-trace recursion\<close>

text \<open>
  C1. On a valid segment \<^verbatim>\<open>forward\<close> returns targets \<open>v\<close> of shape \<open>[T+1, B]\<close> and
  weights \<open>rhos\<close> with, for every step \<open>i < T\<close> and batch element \<open>b\<close>,
  \<open>rhos[i] = min(rho, w[i])\<close> and
  \<open>v[i] = target_value[i] + rho[i] * (rewards[i] + discount_factor * target_value[i+1] - target_value[i])
          + discount_factor * c[i] * (v[i+1] - target_value[i+1])\<close>,
  where \<open>w[i] = exp(target_log_policy[i] - behaviour_log_policy[i])\<close>,
  \<open>rho[i] = min(rho, w[i])\<close> and \<open>c[i] = min(cis, w[i])\<close>; the recursion starts from
  \<open>v[T] = target_value[T]\<close>.
\<close>

theorem vtrace_recursion:
  assumes "valid_segment T B target_value rewards target_log_policy behaviour_log_policy"
  shows "\<exists>v rhos. forward self target_value rewards target_log_policy behaviour_log_policy
             = Inr (v, rhos) \<and>
           shape2 (T + 1) B v \<and> v ! T = target_value ! T \<and>
           (\<forall>i<T. \<forall>b<B.
              rhos ! i ! b
                = min (rho self) (exp (target_log_policy ! i ! b - behaviour_log_policy ! i ! b)) \<and>
              v ! i ! b = target_value ! i ! b
                + min (rho self) (exp (target_log_policy ! i ! b - behaviour_log_policy ! i ! b))
                    * (rewards ! i ! b + discount_factor self * target_value ! (i + 1) ! b
                         - target_value ! i ! b)
                + discount_factor self
                    * min (cis self) (exp (target_log_policy ! i ! b - behaviour_log_policy ! i ! b))
                    * (v ! (i + 1) ! b - target_value ! (i + 1) ! b))"
proof -
  from assms have tlp: "shape2 T B target_log_policy" and blp: "shape2 T B behaviour_log_policy"
    by (simp_all add: valid_segment_def)
  from forward_valid [OF assms, of self] obtain v where
    fw: "forward self target_value rewards target_log_policy behaviour_log_policy
           = Inr (v, rhos_of self (t_exp (map2 (map2 (-)) target_log_policy behaviour_log_policy)))"
    and sh: "shape2 (Suc T) B v" and vT: "v ! T = target_value ! T"
    and rec: "\<forall>i<T. \<forall>b<B. v ! i ! b = target_value ! i ! b
                + min (rho self) (exp (target_log_policy ! i ! b - behaviour_log_policy ! i ! b))
                    * (rewards ! i ! b + discount_factor self * target_value ! (i + 1) ! b
                         - target_value ! i ! b)
                + discount_factor self
                    * min (cis self) (exp (target_log_policy ! i ! b - behaviour_log_policy ! i ! b))
                    * (v ! (i + 1) ! b - target_value ! (i + 1) ! b)"
    by blast
  let ?rhos = "rhos_of self (t_exp (map2 (map2 (-)) target_log_policy behaviour_log_policy))"
  have "\<forall>i<T. \<forall>b<B. ?rhos ! i ! b
          = min (rho self) (exp (target_log_policy ! i ! b - behaviour_log_policy ! i ! b))"
    by (simp add: weights_nth [OF tlp blp])
  with fw sh vT rec show ?thesis
    by (intro exI [of _ v] exI [of _ ?rhos]) simp
qed

text \<open>
  The end-to-end scenario of the specification: \<open>T = 2\<close>, \<open>B = 1\<close>, discount 0.99,
  rewards 1, values 0, equal log-probabilities; the recursion gives 1.99, 1, 0.
\<close>

theorem vtrace_recursion_witness:
  "valid_segment 2 1 [[0], [0], [0]] [[1], [1]] [[0], [0]] [[0], [0]] \<and>
   forward \<lparr>rho = 1, cis = 1, discount_factor = 99 / 100\<rparr>
       [[0], [0], [0]] [[1], [1]] [[0], [0]] [[0], [0]]
     = Inr ([[199 / 100], [1], [0]], [[1], [1]])"
proof -
  have h: "valid_segment 2 1 [[0], [0], [0]] [[1], [1]] [[0], [0]] [[0], [0]]"
    by (simp add: valid_segment_def shape2_def)
  from vtrace_recursion [OF h, of "\<lparr>rho = 1, cis = 1, discount_factor = 99 / 100\<rparr>"]
  obtain v rhos where
    fw: "forward \<lparr>rho = 1, cis = 1, discount_factor = 99 / 100\<rparr>
           [[0], [0], [0]] [[1], [1]] [[0], [0]] [[0], [0]] = Inr (v, rhos)"
    and sh: "shape2 (2 + 1) 1 v" and v2: "v ! 2 = [[0], [0], [0::real]] ! 2"
    and rec: "\<forall>i<2. \<forall>b<1.
              rhos ! i ! b = min (rho \<lparr>rho = 1, cis = 1, discount_factor = 99 / 100\<rparr>)
                 (exp ([[0], [0]] ! i ! b - [[0], [0]] ! i ! b)) \<and>
              v ! i ! b = [[0], [0], [0]] ! i ! b
                + min (rho \<lparr>rho = 1, cis = 1, discount_factor = 99 / 100\<rparr>)
                    (exp ([[0], [0]] ! i ! b - [[0], [0]] ! i ! b))
                    * ([[1], [1]] ! i ! b
                        + discount_factor \<lparr>rho = 1, cis = 1, discount_factor = 99 / 100\<rparr>
                            * [[0], [0], [0]] ! (i + 1) ! b
                         - [[0], [0], [0]] ! i ! b)
                + discount_factor \<lparr>rho = 1, cis = 1, discount_factor = 99 / 100\<rparr>
                    * min (cis \<lparr>rho = 1, cis = 1, discount_factor = 99 / 100\<rparr>)
                        (exp ([[0], [0]] ! i ! b - [[0], [0]] ! i ! b))
                    * (v ! (i + 1) ! b - [[0], [0], [0]] ! (i + 1) ! b)"
    by blast
  have "forward \<lparr>rho = 1, cis = 1, discount_factor = 99 / 100\<rparr>
       [[0], [0], [0]] [[1], [1]] [[0], [0]] [[0], [0]]
     = Inr ([[199 / 100], [1], [0]], [[1], [1]])"
    by (simp add: run_defs upt_rec)
  with h show ?thesis by simp
qed


section \<open>The bootstrap step\<close>

text \<open>
  C2. On a valid segment \<^verbatim>\<open>forward\<close> returns targets with \<open>T + 1\<close> rows whose last row,
  index \<open>T\<close>, is the last row of \<open>target_value\<close>, unchanged.
\<close>

theorem bootstrap_identity:
  assumes "valid_segment T B target_value rewards target_log_policy behaviour_log_policy"
  shows "\<exists>v rhos. forward self target_value rewards target_log_policy behaviour_log_policy
             = Inr (v, rhos) \<and>
           length v = T + 1 \<and> v ! T = target_value ! T \<and> last v = last target_value"
proof -
  from assms have tv: "length target_value = Suc T"
    by (simp add: valid_segment_def shape2_def)
  from forward_valid [OF assms, of self] obtain v where
    fw: "forward self target_value rewards target_log_policy behaviour_log_policy
           = Inr (v, rhos_of self (t_exp (map2 (map2 (-)) target_log_policy behaviour_log_policy)))"
    and sh: "shape2 (Suc T) B v" and vT: "v ! T = target_value ! T"
    by blast
  have lv: "length v = Suc T" using sh by (rule shape2_length)
  have "last v = v ! T" using lv by (cases v rule: rev_cases) (simp_all add: nth_append)
  moreover have "last target_value = target_value ! T"
    using tv by (cases target_value rule: rev_cases) (simp_all add: nth_append)
  ultimately have "last v = last target_value" using vT by simp
  with fw lv vT show ?thesis by simp
qed

text \<open>Off-policy, two batch elements: the last row comes back as it went in.\<close>

theorem bootstrap_identity_witness:
  "valid_segment 1 2 [[1, 3], [2, 5]] [[1, 0]] [[0, ln 2]] [[0, 0]] \<and>
   (\<exists>v rhos. forward \<lparr>rho = 1, cis = 1, discount_factor = 1 / 2\<rparr>
                [[1, 3], [2, 5]] [[1, 0]] [[0, ln 2]] [[0, 0]] = Inr (v, rhos) \<and>
              length v = 1 + 1 \<and> v ! 1 = [2, 5] \<and> last v = [2, 5])"
proof -
  have h: "valid_segment 1 2 [[1, 3], [2, 5]] [[1, 0]] [[0, ln 2]] [[0, 0]]"
    by (simp add: valid_segment_def shape2_def)
  from bootstrap_identity [OF h, of "\<lparr>rho = 1, cis = 1, discount_factor = 1 / 2\<rparr>"] h
  show ?thesis by simp
qed

section \<open>The on-policy case\<close>

lemma n_step_return:
  fixes v :: tensor and g :: real
  assumes vT: "v ! T ! b = tv ! T ! b"
    and rec: "\<forall>i<T. v ! i ! b = rew ! i ! b + g * v ! (i + 1) ! b"
  shows "n \<le> T \<Longrightarrow>
     v ! (T - n) ! b = (\<Sum>k<n. g ^ k * rew ! (T - n + k) ! b) + g ^ n * tv ! T ! b"
proof (induction n)
  case 0
  then show ?case using vT by simp
next
  case (Suc n)
  then have n: "n \<le> T" and i: "T - Suc n < T" and s: "T - Suc n + 1 = T - n" by simp_all
  have shift: "\<And>k. T - Suc n + Suc k = T - n + k" using Suc.prems by simp
  have "v ! (T - Suc n) ! b = rew ! (T - Suc n) ! b + g * v ! (T - n) ! b"
    using rec i s by (metis)
  also have "\<dots> = rew ! (T - Suc n) ! b
      + g * ((\<Sum>k<n. g ^ k * rew ! (T - n + k) ! b) + g ^ n * tv ! T ! b)"
    using Suc.IH [OF n] by simp
  also have "\<dots> = (rew ! (T - Suc n) ! b + g * (\<Sum>k<n. g ^ k * rew ! (T - n + k) ! b))
      + g ^ Suc n * tv ! T ! b"
    by (simp add: algebra_simps)
  also have "rew ! (T - Suc n) ! b + g * (\<Sum>k<n. g ^ k * rew ! (T - n + k) ! b)
      = (\<Sum>k<Suc n. g ^ k * rew ! (T - Suc n + k) ! b)"
  proof -
    have "(\<Sum>k<Suc n. g ^ k * rew ! (T - Suc n + k) ! b)
        = rew ! (T - Suc n) ! b + (\<Sum>k<n. g ^ Suc k * rew ! (T - Suc n + Suc k) ! b)"
      by (simp add: sum.lessThan_Suc_shift del: sum.lessThan_Suc)
    also have "(\<Sum>k<n. g ^ Suc k * rew ! (T - Suc n + Suc k) ! b)
        = g * (\<Sum>k<n. g ^ k * rew ! (T - n + k) ! b)"
      unfolding shift by (simp add: sum_distrib_left mult.assoc)
    finally show ?thesis by simp
  qed
  finally show ?case .
qed

text \<open>
  C3. On a valid segment whose target and behaviour log-probabilities are the same tensor,
  with \<open>rho \<ge> 1\<close> and \<open>cis \<ge> 1\<close>: every truncated weight is 1 (the weights \<open>rhos\<close> that
  \<^verbatim>\<open>forward\<close> returns and the weights \<open>ciss\<close> it uses), \<open>min(rho, 1) = min(cis, 1) = 1\<close>,
  and every target is the n-step bootstrapped return
  \<open>v[i] = (\<Sum>k = 0..T-1-i. discount_factor^k * rewards[i+k]) + discount_factor^(T-i) * target_value[T]\<close>.
\<close>

theorem on_policy_reduction:
  assumes valid: "valid_segment T B target_value rewards log_policy log_policy"
    and rho1: "1 \<le> rho self" and cis1: "1 \<le> cis self"
  shows "\<exists>v rhos w. forward self target_value rewards log_policy log_policy = Inr (v, rhos) \<and>
           importance_sampling log_policy log_policy = Inr w \<and>
           min (rho self) 1 = 1 \<and> min (cis self) 1 = 1 \<and>
           (\<forall>i<T. \<forall>b<B.
              rhos ! i ! b = 1 \<and> ciss_of self w ! i ! b = 1 \<and>
              v ! i ! b = (\<Sum>k = 0..T - 1 - i. discount_factor self ^ k * rewards ! (i + k) ! b)
                            + discount_factor self ^ (T - i) * target_value ! T ! b)"
proof -
  let ?w = "t_exp (map2 (map2 (-)) log_policy log_policy)"
  from valid have lp: "shape2 T B log_policy" by (simp add: valid_segment_def)
  have w: "importance_sampling log_policy log_policy = Inr ?w"
    using lp lp by (rule importance_sampling_valid)
  from forward_valid [OF valid, of self] obtain v where
    fw: "forward self target_value rewards log_policy log_policy = Inr (v, rhos_of self ?w)"
    and vT: "v ! T = target_value ! T"
    and rec: "\<forall>i<T. \<forall>b<B. v ! i ! b = target_value ! i ! b
                + min (rho self) (exp (log_policy ! i ! b - log_policy ! i ! b))
                    * (rewards ! i ! b + discount_factor self * target_value ! (i + 1) ! b
                         - target_value ! i ! b)
                + discount_factor self
                    * min (cis self) (exp (log_policy ! i ! b - log_policy ! i ! b))
                    * (v ! (i + 1) ! b - target_value ! (i + 1) ! b)"
    by blast
  have m: "min (rho self) 1 = 1" "min (cis self) 1 = 1" using rho1 cis1 by simp_all
  have body: "rhos_of self ?w ! i ! b = 1 \<and> ciss_of self ?w ! i ! b = 1 \<and>
       v ! i ! b = (\<Sum>k = 0..T - 1 - i. discount_factor self ^ k * rewards ! (i + k) ! b)
                     + discount_factor self ^ (T - i) * target_value ! T ! b"
    if i: "i < T" and b: "b < B" for i b
  proof -
    have one: "rhos_of self ?w ! i ! b = 1" "ciss_of self ?w ! i ! b = 1"
      using i b m by (simp_all add: weights_nth [OF lp lp])
    have step: "\<forall>j<T. v ! j ! b = rewards ! j ! b + discount_factor self * v ! (j + 1) ! b"
    proof (intro allI impI)
      fix j assume j: "j < T"
      with rec b have "v ! j ! b = target_value ! j ! b
                + min (rho self) (exp (log_policy ! j ! b - log_policy ! j ! b))
                    * (rewards ! j ! b + discount_factor self * target_value ! (j + 1) ! b
                         - target_value ! j ! b)
                + discount_factor self
                    * min (cis self) (exp (log_policy ! j ! b - log_policy ! j ! b))
                    * (v ! (j + 1) ! b - target_value ! (j + 1) ! b)"
        by blast
      then show "v ! j ! b = rewards ! j ! b + discount_factor self * v ! (j + 1) ! b"
        using m by (simp add: algebra_simps)
    qed
    have le: "T - i \<le> T" by simp
    have vTb: "v ! T ! b = target_value ! T ! b" using vT by simp
    from n_step_return [OF vTb step le]
    have "v ! i ! b = (\<Sum>k<T - i. discount_factor self ^ k * rewards ! (i + k) ! b)
                     + discount_factor self ^ (T - i) * target_value ! T ! b"
      using i by simp
    moreover have "{..<T - i} = {0..T - 1 - i}" using i by auto
    ultimately show ?thesis using one by simp
  qed
  from fw w m body show ?thesis by blast
qed

text \<open>
  The end-to-end scenario again (\<open>T = 2\<close>): \<open>v[0] = 1 + 0.99 * 1 + 0.99^2 * 0\<close> and
  \<open>v[1] = 1 + 0.99 * 0\<close>.
\<close>

theorem on_policy_reduction_witness:
  "valid_segment 2 1 [[0], [0], [0]] [[1], [1]] [[-1], [-2]] [[-1], [-2]] \<and>
   1 \<le> rho \<lparr>rho = 1, cis = 1, discount_factor = 99 / 100\<rparr> \<and>
   1 \<le> cis \<lparr>rho = 1, cis = 1, discount_factor = 99 / 100\<rparr> \<and>
   forward \<lparr>rho = 1, cis = 1, discount_factor = 99 / 100\<rparr>
       [[0], [0], [0]] [[1], [1]] [[-1], [-2]] [[-1], [-2]]
     = Inr ([[1 + 99 / 100 * 1 + (99 / 100)\<^sup>2 * 0], [1 + 99 / 100 * 0], [0]], [[1], [1]])"
proof -
  have h: "valid_segment 2 1 [[0], [0], [0]] [[1], [1]] [[-1], [-2]] [[-1], [-2]]"
    by (simp add: valid_segment_def shape2_def)
  have r: "1 \<le> rho \<lparr>rho = 1, cis = 1, discount_factor = 99 / 100\<rparr>"
    and c: "1 \<le> cis \<lparr>rho = 1, cis = 1, discount_factor = 99 / 100\<rparr>" by simp_all
  have "forward \<lparr>rho = 1, cis = 1, discount_factor = 99 / 100\<rparr>
       [[0], [0], [0]] [[1], [1]] [[-1], [-2]] [[-1], [-2]]
     = Inr ([[1 + 99 / 100 * 1 + (99 / 100)\<^sup>2 * 0], [1 + 99 / 100 * 0], [0]], [[1], [1]])"
    by (simp add: run_defs upt_rec power2_eq_square)
  with on_policy_reduction [OF h r c] h show ?thesis by simp
qed


section \<open>The truncated weights\<close>

text \<open>
  C4. On a valid segment, with \<open>0 < cis \<le> rho\<close>: \<^verbatim>\<open>forward\<close> returns the weights
  \<open>rhos\<close>, and with \<open>ciss\<close> the weights it uses at line 67, every step \<open>i < T\<close> and batch
  element \<open>b\<close> has \<open>0 \<le> rhos[i] \<le> rho\<close>, \<open>0 \<le> ciss[i] \<le> cis\<close> and \<open>ciss[i] \<le> rhos[i]\<close>.
\<close>

theorem truncation_bound:
  assumes valid: "valid_segment T B target_value rewards target_log_policy behaviour_log_policy"
    and pos: "0 < cis self" and le: "cis self \<le> rho self"
  shows "\<exists>v rhos w. forward self target_value rewards target_log_policy behaviour_log_policy
             = Inr (v, rhos) \<and>
           importance_sampling target_log_policy behaviour_log_policy = Inr w \<and>
           rhos = rhos_of self w \<and>
           (\<forall>i<T. \<forall>b<B.
              0 \<le> rhos ! i ! b \<and> rhos ! i ! b \<le> rho self \<and>
              0 \<le> ciss_of self w ! i ! b \<and> ciss_of self w ! i ! b \<le> cis self \<and>
              ciss_of self w ! i ! b \<le> rhos ! i ! b)"
proof -
  let ?w = "t_exp (map2 (map2 (-)) target_log_policy behaviour_log_policy)"
  from valid have tlp: "shape2 T B target_log_policy" and blp: "shape2 T B behaviour_log_policy"
    by (simp_all add: valid_segment_def)
  have w: "importance_sampling target_log_policy behaviour_log_policy = Inr ?w"
    using tlp blp by (rule importance_sampling_valid)
  from forward_valid [OF valid, of self] obtain v where
    fw: "forward self target_value rewards target_log_policy behaviour_log_policy
           = Inr (v, rhos_of self ?w)"
    by blast
  have "\<forall>i<T. \<forall>b<B.
              0 \<le> rhos_of self ?w ! i ! b \<and> rhos_of self ?w ! i ! b \<le> rho self \<and>
              0 \<le> ciss_of self ?w ! i ! b \<and> ciss_of self ?w ! i ! b \<le> cis self \<and>
              ciss_of self ?w ! i ! b \<le> rhos_of self ?w ! i ! b"
    using pos le by (simp add: weights_nth [OF tlp blp] min_def)
  with fw w show ?thesis by blast
qed

text \<open>
  Ratios 1, 2 and 4 against the caps \<open>rho = 3\<close> and \<open>cis = 3/2\<close>: the returned weights
  are 1, 2 and 3.
\<close>

theorem truncation_bound_witness:
  "valid_segment 1 3 [[0, 0, 0], [0, 0, 0]] [[0, 0, 0]] [[0, ln 2, ln 4]] [[0, 0, 0]] \<and>
   0 < cis \<lparr>rho = 3, cis = 3 / 2, discount_factor = 1\<rparr> \<and>
   cis \<lparr>rho = 3, cis = 3 / 2, discount_factor = 1\<rparr>
     \<le> rho \<lparr>rho = 3, cis = 3 / 2, discount_factor = 1\<rparr> \<and>
   (\<exists>v. forward \<lparr>rho = 3, cis = 3 / 2, discount_factor = 1\<rparr>
           [[0, 0, 0], [0, 0, 0]] [[0, 0, 0]] [[0, ln 2, ln 4]] [[0, 0, 0]]
         = Inr (v, [[1, 2, 3]]))"
proof -
  have h: "valid_segment 1 3 [[0, 0, 0], [0, 0, 0]] [[0, 0, 0]] [[0, ln 2, ln 4]] [[0, 0, 0]]"
    by (simp add: valid_segment_def shape2_def)
  have p: "0 < cis \<lparr>rho = 3, cis = 3 / 2, discount_factor = 1\<rparr>"
    and l: "cis \<lparr>rho = 3, cis = 3 / 2, discount_factor = 1\<rparr>
              \<le> rho \<lparr>rho = 3, cis = 3 / 2, discount_factor = 1\<rparr>" by simp_all
  have e: "importance_sampling [[0, ln 2, ln 4]] [[0, 0, 0]] = Inr [[1, 2, 4]]"
    by (simp add: importance_sampling_def broadcast2_def broadcast_def t_exp_def)
  from truncation_bound [OF h p l] obtain v rhos w where
    fw: "forward \<lparr>rho = 3, cis = 3 / 2, discount_factor = 1\<rparr>
           [[0, 0, 0], [0, 0, 0]] [[0, 0, 0]] [[0, ln 2, ln 4]] [[0, 0, 0]] = Inr (v, rhos)"
    and w: "importance_sampling [[0, ln 2, ln 4]] [[0, 0, 0]] = Inr w"
    and r: "rhos = rhos_of \<lparr>rho = 3, cis = 3 / 2, discount_factor = 1\<rparr> w"
    by blast
  from w e have "w = [[1, 2, 4]]" by simp
  with r have "rhos = [[1, 2, 3]]" by (simp add: rhos_of_def scal_tensor_def scal_row_def)
  with fw h p l show ?thesis by blast
qed

section \<open>The value loss\<close>

lemma t_sum_shape:
  assumes "shape2 n B t"
  shows "t_sum t = (\<Sum>i = 0..<n. \<Sum>b = 0..<B. t ! i ! b)"
proof -
  from assms have len: "length t = n" and rows: "\<And>i. i < n \<Longrightarrow> length (t ! i) = B"
    by (simp_all add: shape2_def list_all_length)
  have "t_sum t = (\<Sum>i = 0..<n. sum_list (t ! i))"
    by (simp add: t_sum_def sum_list_sum_nth len)
  also have "\<dots> = (\<Sum>i = 0..<n. \<Sum>b = 0..<B. t ! i ! b)"
    by (rule sum.cong) (simp_all add: sum_list_sum_nth rows)
  finally show ?thesis .
qed

lemma t_pow2_shape: "shape2 n B t \<Longrightarrow> shape2 n B (t_pow2 t)"
  by (simp add: t_pow2_def shape2_map)

lemma t_pow2_nth: "shape2 n B t \<Longrightarrow> i < n \<Longrightarrow> b < B \<Longrightarrow> t_pow2 t ! i ! b = (t ! i ! b)\<^sup>2"
  by (simp add: t_pow2_def shape2_def list_all_length)

lemma loss_value_of_shape:
  assumes v: "shape2 n B v" and tv: "shape2 n B tv"
  shows "loss_value_of v tv = Inr (\<Sum>i = 0..<n. \<Sum>b = 0..<B. (v ! i ! b - tv ! i ! b)\<^sup>2)"
proof -
  let ?d = "map2 (map2 (-)) v tv"
  have d: "shape2 n B ?d" using v tv by (rule map2_shape)
  have "loss_value_of v tv = Inr (t_sum (t_pow2 ?d))"
    using v tv by (simp add: loss_value_of_def broadcast2_same)
  also have "t_sum (t_pow2 ?d) = (\<Sum>i = 0..<n. \<Sum>b = 0..<B. t_pow2 ?d ! i ! b)"
    using d by (simp add: t_sum_shape t_pow2_shape)
  also have "\<dots> = (\<Sum>i = 0..<n. \<Sum>b = 0..<B. (v ! i ! b - tv ! i ! b)\<^sup>2)"
    by (intro sum.cong refl) (simp add: t_pow2_nth [OF d] map2_nth2 [OF v tv])
  finally show ?thesis .
qed

text \<open>
  The expression of lines 100-101 on the targets that \<^verbatim>\<open>forward\<close> returns for a valid
  segment: the sum of \<open>(v_targets[i][b] - target_value[i][b])^2\<close> over all \<open>T + 1\<close>
  steps and all \<open>B\<close> batch elements, with nothing from the bootstrap step \<open>i = T\<close>.
\<close>

lemma loss_value_of_forward:
  assumes "valid_segment T B target_value rewards target_log_policy behaviour_log_policy"
  shows "\<exists>v_targets rhos.
           forward self target_value rewards target_log_policy behaviour_log_policy
             = Inr (v_targets, rhos) \<and>
           loss_value_of v_targets target_value
             = Inr (\<Sum>i = 0..T. \<Sum>b = 0..<B. (v_targets ! i ! b - target_value ! i ! b)\<^sup>2) \<and>
           (\<Sum>b = 0..<B. (v_targets ! T ! b - target_value ! T ! b)\<^sup>2) = 0"
proof -
  from assms have tv: "shape2 (Suc T) B target_value" by (simp add: valid_segment_def)
  from forward_valid [OF assms, of self] obtain v where
    fw: "forward self target_value rewards target_log_policy behaviour_log_policy
           = Inr (v, rhos_of self (t_exp (map2 (map2 (-)) target_log_policy behaviour_log_policy)))"
    and sh: "shape2 (Suc T) B v" and vT: "v ! T = target_value ! T"
    by blast
  have "{0..<Suc T} = {0..T}" by auto
  with loss_value_of_shape [OF sh tv]
  have lv: "loss_value_of v target_value
      = Inr (\<Sum>i = 0..T. \<Sum>b = 0..<B. (v ! i ! b - target_value ! i ! b)\<^sup>2)"
    by simp
  have "(\<Sum>b = 0..<B. (v ! T ! b - target_value ! T ! b)\<^sup>2) = 0"
    using vT by simp
  with fw lv show ?thesis by blast
qed

section \<open>Construction\<close>

text \<open>
  C8. \<^verbatim>\<open>VTrace.__init__\<close> fails its assertion exactly when \<open>rho < cis\<close>; with
  \<open>rho \<ge> cis\<close> it returns the estimator with the three fields as given; called with its
  three keywords it runs that body. The check is made at construction only:
  \<^verbatim>\<open>forward\<close> returns on every valid segment whatever the order of the two caps.
\<close>

theorem construction_check:
  "(rho' < cis' \<longrightarrow> VTrace_init d rho' cis' = Inl AssertionError) \<and>
   (cis' \<le> rho' \<longrightarrow>
      VTrace_init d rho' cis' = Inr \<lparr>rho = rho', cis = cis', discount_factor = d\<rparr>) \<and>
   VTrace_call [(''discount_factor'', PyFloat d), (''rho'', PyFloat rho'), (''cis'', PyFloat cis')]
     = VTrace_init d rho' cis' \<and>
   (valid_segment T B target_value rewards target_log_policy behaviour_log_policy \<longrightarrow>
      (\<exists>r. forward \<lparr>rho = rho', cis = cis', discount_factor = d\<rparr>
             target_value rewards target_log_policy behaviour_log_policy = Inr r))"
proof (intro conjI impI)
  show "VTrace_call [(''discount_factor'', PyFloat d), (''rho'', PyFloat rho'), (''cis'', PyFloat cis')]
     = VTrace_init d rho' cis'"
    by (simp add: VTrace_call_def bind_kwargs_def VTrace_params_def)
next
  assume "valid_segment T B target_value rewards target_log_policy behaviour_log_policy"
  from forward_valid [OF this, of "\<lparr>rho = rho', cis = cis', discount_factor = d\<rparr>"]
  show "\<exists>r. forward \<lparr>rho = rho', cis = cis', discount_factor = d\<rparr>
             target_value rewards target_log_policy behaviour_log_policy = Inr r"
    by blast
qed (simp_all add: VTrace_init_def)

text \<open>
  \<open>rho = 1 < cis = 2\<close> is refused at construction, yet \<^verbatim>\<open>forward\<close> on an estimator with
  these caps returns; \<open>rho = 2 \<ge> cis = 1\<close> is accepted.
\<close>

theorem construction_check_witness:
  "(1::real) < 2 \<and> VTrace_init (9 / 10) 1 2 = Inl AssertionError \<and>
   (1::real) \<le> 2 \<and>
   VTrace_init (9 / 10) 2 1 = Inr \<lparr>rho = 2, cis = 1, discount_factor = 9 / 10\<rparr> \<and>
   VTrace_call [(''discount_factor'', PyFloat (9 / 10)), (''rho'', PyFloat 2), (''cis'', PyFloat 1)]
     = Inr \<lparr>rho = 2, cis = 1, discount_factor = 9 / 10\<rparr> \<and>
   valid_segment 1 1 [[1], [2]] [[1]] [[0]] [[0]] \<and>
   (\<exists>r. forward \<lparr>rho = 1, cis = 2, discount_factor = 9 / 10\<rparr> [[1], [2]] [[1]] [[0]] [[0]]
          = Inr r)"
proof -
  have h: "valid_segment 1 1 [[1], [2]] [[1]] [[0]] [[0]]"
    by (simp add: valid_segment_def shape2_def)
  from construction_check [of 1 2 "9 / 10" 1 1 "[[1], [2]]" "[[1]]" "[[0]]" "[[0]]"] h
  have a: "VTrace_init (9 / 10) 1 2 = Inl AssertionError"
    and b: "\<exists>r. forward \<lparr>rho = 1, cis = 2, discount_factor = 9 / 10\<rparr>
              [[1], [2]] [[1]] [[0]] [[0]] = Inr r"
    by simp_all
  from construction_check [of 2 1 "9 / 10" 1 1 "[[1], [2]]" "[[1]]" "[[0]]" "[[0]]"]
  have c: "VTrace_init (9 / 10) 2 1 = Inr \<lparr>rho = 2, cis = 1, discount_factor = 9 / 10\<rparr>"
    and d: "VTrace_call [(''discount_factor'', PyFloat (9 / 10)), (''rho'', PyFloat 2),
                         (''cis'', PyFloat 1)]
              = Inr \<lparr>rho = 2, cis = 1, discount_factor = 9 / 10\<rparr>"
    by simp_all
  from a b c d h show ?thesis by simp
qed

text \<open>
  C10. \<^verbatim>\<open>Impala.__init__\<close> raises TypeError for every choice of its arguments: it calls
  \<^verbatim>\<open>VTrace\<close> with the keyword \<^verbatim>\<open>sequence_length\<close>, which is none of the parameters
  \<^verbatim>\<open>discount_factor\<close>, \<^verbatim>\<open>rho\<close>, \<^verbatim>\<open>cis\<close>. No instance is returned, so no loss can be
  computed on one.
\<close>

theorem Impala_init_TypeError:
  "Impala_init sequence_length' entropy_coef' value_coef' discount_factor' model' rho' cis' device'
     = Inl TypeError"
  by (simp add: Impala_init_def VTrace_call_def bind_kwargs_def VTrace_params_def)


section \<open>Shapes that do not fit\<close>












section \<open>The total loss\<close>

lemma shape2_tl: "shape2 (Suc n) B t \<Longrightarrow> shape2 n B (tl t)"
  by (cases t) (simp_all add: shape2_def)

lemma shape2_butlast: "shape2 (Suc n) B t \<Longrightarrow> shape2 n B (butlast t)"
  by (auto simp: shape2_def list_all_length nth_butlast)

lemma t_neg_shape: "shape2 n B t \<Longrightarrow> shape2 n B (t_neg t)"
  by (simp add: t_neg_def shape2_map)

lemma t_neg_nth: "shape2 n B t \<Longrightarrow> i < n \<Longrightarrow> b < B \<Longrightarrow> t_neg t ! i ! b = - (t ! i ! b)"
  by (simp add: t_neg_def shape2_def list_all_length)

text \<open>
  Lines 108-110 on well-shaped operands, for a given discount factor \<open>gamma\<close>: the
  advantage is \<open>rewards[i] + gamma * v_targets[i+1] - target_value[i]\<close>, and the policy
  loss is the sum of \<open>- rhos[i] * target_log_probs[i] * advantage[i]\<close> over the steps
  \<open>i < T\<close>, the bootstrap step left out.
\<close>

lemma advantage_of_shape:
  assumes rew: "shape2 T B rewards" and v: "shape2 (Suc T) B v_targets"
    and tv: "shape2 (Suc T) B target_value"
  shows "\<exists>adv. advantage_of gamma rewards v_targets target_value = Inr adv \<and> shape2 T B adv \<and>
     (\<forall>i<T. \<forall>b<B. adv ! i ! b
        = rewards ! i ! b + gamma * v_targets ! (i + 1) ! b - target_value ! i ! b)"
proof -
  let ?g = "scal_tensor (*) gamma (tl v_targets)"
  let ?s = "map2 (map2 (+)) rewards ?g"
  let ?a = "map2 (map2 (-)) ?s (butlast target_value)"
  have tlv: "shape2 T B (tl v_targets)" using v by (rule shape2_tl)
  have g: "shape2 T B ?g" using tlv by (rule scal_tensor_shape)
  have bl: "shape2 T B (butlast target_value)" using tv by (rule shape2_butlast)
  have s: "shape2 T B ?s" using rew g by (rule map2_shape)
  have a: "shape2 T B ?a" using s bl by (rule map2_shape)
  have run: "advantage_of gamma rewards v_targets target_value = Inr ?a"
    by (simp add: advantage_of_def broadcast2_same [OF rew g] broadcast2_same [OF s bl])
  have lv: "length v_targets = Suc T" and ltv: "length target_value = Suc T"
    using v tv by (simp_all add: shape2_length)
  have "?a ! i ! b = rewards ! i ! b + gamma * v_targets ! (i + 1) ! b - target_value ! i ! b"
    if i: "i < T" and b: "b < B" for i b
  proof -
    have "tl v_targets ! i = v_targets ! (i + 1)" using i lv by (simp add: nth_tl)
    moreover have "butlast target_value ! i = target_value ! i"
      using i ltv by (simp add: nth_butlast)
    ultimately show ?thesis
      using i b by (simp add: map2_nth2 [OF s bl] map2_nth2 [OF rew g] scal_tensor_nth [OF tlv])
  qed
  with run a show ?thesis by blast
qed

lemma loss_policy_of_shape:
  assumes rhos: "shape2 T B rhos" and tlp: "shape2 (Suc T) B target_log_probs"
    and adv: "shape2 T B advantage"
  shows "loss_policy_of rhos target_log_probs advantage
     = Inr (\<Sum>i = 0..<T. \<Sum>b = 0..<B.
              - rhos ! i ! b * target_log_probs ! i ! b * advantage ! i ! b)"
proof -
  let ?p = "map2 (map2 (*)) (t_neg rhos) (butlast target_log_probs)"
  let ?q = "map2 (map2 (*)) ?p advantage"
  have n: "shape2 T B (t_neg rhos)" using rhos by (rule t_neg_shape)
  have bl: "shape2 T B (butlast target_log_probs)" using tlp by (rule shape2_butlast)
  have p: "shape2 T B ?p" using n bl by (rule map2_shape)
  have q: "shape2 T B ?q" using p adv by (rule map2_shape)
  have ltlp: "length target_log_probs = Suc T" using tlp by (rule shape2_length)
  have "loss_policy_of rhos target_log_probs advantage = Inr (t_sum ?q)"
    by (simp add: loss_policy_of_def broadcast2_same [OF n bl] broadcast2_same [OF p adv])
  also have "t_sum ?q = (\<Sum>i = 0..<T. \<Sum>b = 0..<B. ?q ! i ! b)"
    using q by (rule t_sum_shape)
  also have "\<dots> = (\<Sum>i = 0..<T. \<Sum>b = 0..<B.
              - rhos ! i ! b * target_log_probs ! i ! b * advantage ! i ! b)"
    by (intro sum.cong refl)
      (simp add: map2_nth2 [OF p adv] map2_nth2 [OF n bl] t_neg_nth [OF rhos] nth_butlast ltlp)
  finally show ?thesis .
qed

lemma loss_never_returns:
  "loss self obs behaviour_actions reset_mask lstm_hxs rewards behaviour_log_probs \<noteq> Inr r"
  by (auto simp: loss_def self_discount_factor_def ebind_def split: sum.splits prod.splits)

text \<open>
  On a valid segment \<^verbatim>\<open>Impala.loss\<close> passes its assertion, runs the model and
  \<^verbatim>\<open>forward\<close>, computes the value loss, and raises at line 108.
\<close>

lemma loss_valid_segment:
  assumes obs: "int (length obs) = sequence_length self + 1"
    and m: "model self obs lstm_hxs reset_mask behaviour_actions
              = Inr (target_log_probs, target_entropy, target_value)"
    and valid: "valid_segment T B target_value rewards (butlast target_log_probs)
                  behaviour_log_probs"
  shows "loss self obs behaviour_actions reset_mask lstm_hxs rewards behaviour_log_probs
           = Inl AttributeError"
proof -
  from valid have tv: "shape2 (Suc T) B target_value" by (simp add: valid_segment_def)
  from forward_valid [OF valid, of "vtrace self"] obtain v where
    fw: "forward (vtrace self) target_value rewards (butlast target_log_probs) behaviour_log_probs
           = Inr (v, rhos_of (vtrace self)
               (t_exp (map2 (map2 (-)) (butlast target_log_probs) behaviour_log_probs)))"
    and sh: "shape2 (Suc T) B v"
    by blast
  from loss_value_of_shape [OF sh tv] obtain x where lv: "loss_value_of v target_value = Inr x"
    by blast
  show ?thesis
    using obs m fw lv by (simp add: loss_def self_discount_factor_def)
qed

text \<open>
  C6. The value loss is the sum of \<open>(v_targets - target_value)^2\<close> over all \<open>T + 1\<close>
  steps and all batch elements, with 0 from the bootstrap step; lines 100-101 compute
  that sum, but \<^verbatim>\<open>Impala.loss\<close> does not deliver it. On the valid segment with
  \<open>T = 1\<close>, \<open>B = 2\<close>, values \<open>[[1, 0], [2, 3]]\<close>, rewards \<open>[[1, 1]]\<close>, equal
  log-probabilities, discount 0.9 and caps 1, the targets are \<open>[[2.8, 3.7], [2, 3]]\<close> and
  the value loss of lines 100-101 is \<open>1.8^2 + 3.7^2 + 0 + 0 = 16.93\<close>, yet the call raises
  AttributeError at line 108 and returns neither the loss nor its value entry.
\<close>

theorem value_loss_not_returned:
  "valid_segment 1 2 [[1, 0], [2, 3]] [[1, 1]] (butlast [[0, 0], [0, 0]]) [[0, 0]] \<and>
   forward \<lparr>rho = 1, cis = 1, discount_factor = 9 / 10\<rparr>
       [[1, 0], [2, 3]] [[1, 1]] (butlast [[0, 0], [0, 0]]) [[0, 0]]
     = Inr ([[28 / 10, 37 / 10], [2, 3]], [[1, 1]]) \<and>
   loss_value_of [[28 / 10, 37 / 10], [2, 3]] [[1, 0], [2, 3]] = Inr (1693 / 100) \<and>
   (\<Sum>b = 0..<2. ([[28 / 10, 37 / 10], [2, 3]] ! 1 ! b - [[1, 0], [2, 3 :: real]] ! 1 ! b)\<^sup>2) = 0 \<and>
   loss \<lparr>device = ''cuda'',
        model = (\<lambda>(obs :: unit list) (h :: unit) (m :: unit) (a :: unit).
                   Inr ([[0, 0], [0, 0]], [[0, 0], [0, 0]], [[1, 0], [2, 3]])),
        entropy_coef = 1 / 100, value_coef = 1 / 2, sequence_length = 1,
        vtrace = \<lparr>rho = 1, cis = 1, discount_factor = 9 / 10\<rparr>\<rparr>
      [(), ()] () () () [[1, 1]] [[0, 0]]
     = Inl AttributeError"
proof -
  have f: "forward \<lparr>rho = 1, cis = 1, discount_factor = 9 / 10\<rparr>
       [[1, 0], [2, 3]] [[1, 1]] (butlast [[0, 0], [0, 0]]) [[0, 0]]
     = Inr ([[28 / 10, 37 / 10], [2, 3]], [[1, 1]])"
    by (simp add: run_defs)
  have v: "loss_value_of [[28 / 10, 37 / 10], [2, 3]] [[1, 0], [2, 3]] = Inr (1693 / 100)"
    by (simp add: loss_value_of_def broadcast2_def broadcast_def t_sum_def t_pow2_def
        power2_eq_square)
  have z: "(\<Sum>b = 0..<2. ([[28 / 10, 37 / 10], [2, 3]] ! 1 ! b
              - [[1, 0], [2, 3 :: real]] ! 1 ! b)\<^sup>2) = 0"
    by (simp add: numeral_2_eq_2)
  have l: "loss \<lparr>device = ''cuda'',
        model = (\<lambda>(obs :: unit list) (h :: unit) (m :: unit) (a :: unit).
                   Inr ([[0, 0], [0, 0]], [[0, 0], [0, 0]], [[1, 0], [2, 3]])),
        entropy_coef = 1 / 100, value_coef = 1 / 2, sequence_length = 1,
        vtrace = \<lparr>rho = 1, cis = 1, discount_factor = 9 / 10\<rparr>\<rparr>
      [(), ()] () () () [[1, 1]] [[0, 0]]
     = Inl AttributeError"
    using f v by (simp add: loss_def self_discount_factor_def)
  have h: "valid_segment 1 2 [[1, 0], [2, 3]] [[1, 1]] (butlast [[0, 0], [0, 0]]) [[0, 0]]"
    by (simp add: valid_segment_def shape2_def)
  from h f v z l show ?thesis by (intro conjI)
qed

text \<open>
  C5. The claim is the formula that lines 108-117 spell out, but \<^verbatim>\<open>Impala.loss\<close> never
  returns it. Constructing the aggregator with \<open>sequence_length = 1\<close>, coefficients 0.01
  and 0.5, discount 0.9 and caps 1 raises TypeError; and on an instance with the
  attributes that the constructor assigns, the call on a valid one-step segment raises
  AttributeError at line 108, where \<^verbatim>\<open>self.discount_factor\<close> is read and was never
  assigned.
\<close>

theorem loss_raises_AttributeError:
  "Impala_init 1 (1 / 100) (1 / 2) (9 / 10)
       (\<lambda>(obs :: unit list) (h :: unit) (m :: unit) (a :: unit).
          Inr ([[0], [0]], [[0], [0]], [[1], [2]]))
       1 1 ''cuda''
     = Inl TypeError \<and>
   valid_segment 1 1 [[1], [2]] [[1]] (butlast [[0], [0]]) [[0]] \<and>
   loss \<lparr>device = ''cuda'',
        model = (\<lambda>(obs :: unit list) (h :: unit) (m :: unit) (a :: unit).
                   Inr ([[0], [0]], [[0], [0]], [[1], [2]])),
        entropy_coef = 1 / 100, value_coef = 1 / 2, sequence_length = 1,
        vtrace = \<lparr>rho = 1, cis = 1, discount_factor = 9 / 10\<rparr>\<rparr>
      [(), ()] () () () [[1]] [[0]]
     = Inl AttributeError"
  by (simp add: Impala_init_def VTrace_call_def bind_kwargs_def VTrace_params_def
      valid_segment_def shape2_def loss_def self_discount_factor_def loss_value_of_def
      t_sum_def t_pow2_def run_defs)

end
